theory Spec2Isabelle
  imports Complex_Main "HOL-Library.Product_Lexorder" "HOL-Library.Sublist"
begin

section \<open>Data model of dashboard.py\<close>

text \<open>
  The script works on a pandas data frame read from \<^verbatim>\<open>Final_Dashboard_Data_v3.csv\<close>.
  One row is one day.  The columns the script touches are \<^verbatim>\<open>D.O.A\<close>,
  \<^verbatim>\<open>Patient_Count\<close>, \<^verbatim>\<open>Estimated_Nurse_Count\<close>, \<^verbatim>\<open>Patients_Per_Nurse\<close> and
  \<^verbatim>\<open>Occupancy_Rate\<close>.

  Modelling conventions.
  \<^item> A \<^verbatim>\<open>datetime.date\<close> is the triple (year, month, day); Python compares dates
    lexicographically on these three fields, which is the order of the product type.
  \<^item> A pandas \<^verbatim>\<open>Timestamp\<close> is a date together with the time of day, in nanoseconds
    since midnight.
  \<^item> The numeric columns are exact rationals: the finite values a float64 column holds,
    without the rounding error of float arithmetic and without NaN.
  \<^item> The row type is polymorphic in the date column: text before \<^verbatim>\<open>pd.to_datetime\<close>,
    a timestamp after it.
\<close>

type_synonym date = "nat \<times> nat \<times> nat"

type_synonym timestamp = "date \<times> nat"

record 'd row =
  D_O_A :: 'd
  Patient_Count :: rat
  Estimated_Nurse_Count :: rat
  Patients_Per_Nurse :: rat
  Occupancy_Rate :: rat

type_synonym dataframe = "timestamp row list"

text \<open>\<^verbatim>\<open>Series.dt.date\<close>: the calendar day of a timestamp, the time of day dropped.\<close>

definition dt_date :: "timestamp \<Rightarrow> date" where
  "dt_date ts = fst ts"

section \<open>Filter logic (lines 109-112)\<close>

text \<open>
  Boolean indexing, \<^verbatim>\<open>df.loc[mask]\<close> and \<^verbatim>\<open>df[mask]\<close>: the rows whose mask entry is
  True, in the order of the frame.
\<close>

definition loc :: "'a list \<Rightarrow> bool list \<Rightarrow> 'a list" where
  "loc df keep = map fst (filter snd (zip df keep))"

text \<open>
  \<^verbatim>\<open>mask = (df['D.O.A'].dt.date >= start_date) & (df['D.O.A'].dt.date <= end_date)\<close>
\<close>

definition date_mask :: "dataframe \<Rightarrow> date \<Rightarrow> date \<Rightarrow> bool list" where
  "date_mask df start_date end_date =
     map (\<lambda>r. dt_date (D_O_A r) \<ge> start_date \<and> dt_date (D_O_A r) \<le> end_date) df"

text \<open>\<^verbatim>\<open>df_filtered['Patients_Per_Nurse'] >= min_ratio\<close>\<close>

definition ratio_mask :: "dataframe \<Rightarrow> rat \<Rightarrow> bool list" where
  "ratio_mask df min_ratio = map (\<lambda>r. Patients_Per_Nurse r \<ge> min_ratio) df"

text \<open>The two steps of the filter, each from its line of the script.\<close>

definition date_step :: "dataframe \<Rightarrow> date \<Rightarrow> date \<Rightarrow> dataframe" where
  "date_step df start_date end_date = loc df (date_mask df start_date end_date)"

definition ratio_step :: "dataframe \<Rightarrow> rat \<Rightarrow> dataframe" where
  "ratio_step df min_ratio = loc df (ratio_mask df min_ratio)"

text \<open>
  \<^verbatim>\<open>
  mask = ...
  df_filtered = df.loc[mask]
  df_filtered = df_filtered[df_filtered['Patients_Per_Nurse'] >= min_ratio]
  \<close>
\<close>

definition filter_logic :: "dataframe \<Rightarrow> date \<Rightarrow> date \<Rightarrow> rat \<Rightarrow> dataframe" where
  "filter_logic df start_date end_date min_ratio =
     (let keep = date_mask df start_date end_date;
          df_filtered = loc df keep
      in loc df_filtered (ratio_mask df_filtered min_ratio))"

section \<open>Metric cards (lines 125-128)\<close>

text \<open>
  \<^verbatim>\<open>Series.mean()\<close>: the sum over the count.  On an empty column pandas returns NaN,
  which is \<open>None\<close> here.
\<close>

definition mean :: "rat list \<Rightarrow> rat option" where
  "mean xs = (if xs = [] then None else Some (sum_list xs / of_nat (length xs)))"

text \<open>Rounding to the nearest integer, a tie going to the even neighbour.\<close>

definition rint :: "rat \<Rightarrow> int" where
  "rint x =
     (let f = \<lfloor>x\<rfloor>; d = x - of_int f
      in if d < 1 / 2 then f
         else if 1 / 2 < d then f + 1
         else if even f then f else f + 1)"

text \<open>
  \<^verbatim>\<open>round(x, ndigits)\<close> on the float a mean returns: scale by \<open>10 ^ ndigits\<close>, round to the
  nearest integer (ties to even), scale back.  NaN stays NaN.
\<close>

definition py_round :: "rat option \<Rightarrow> nat \<Rightarrow> rat option" where
  "py_round x ndigits =
     map_option (\<lambda>v. of_int (rint (v * 10 ^ ndigits)) / 10 ^ ndigits) x"

record Aggregates =
  avg_patients :: "rat option"
  avg_nurses :: "rat option"
  avg_ratio :: "rat option"
  risk_days :: nat

text \<open>
  \<^verbatim>\<open>
  avg_patients = round(df_filtered['Patient_Count'].mean(), 1)
  avg_nurses = round(df_filtered['Estimated_Nurse_Count'].mean(), 1)
  avg_ratio = round(df_filtered['Patients_Per_Nurse'].mean(), 2)
  risk_days = len(df_filtered[df_filtered['Patients_Per_Nurse'] > 4.0])
  \<close>
\<close>

definition metrics :: "dataframe \<Rightarrow> Aggregates" where
  "metrics df_filtered =
     \<lparr> avg_patients = py_round (mean (map Patient_Count df_filtered)) 1,
       avg_nurses = py_round (mean (map Estimated_Nurse_Count df_filtered)) 1,
       avg_ratio = py_round (mean (map Patients_Per_Nurse df_filtered)) 2,
       risk_days = length (loc df_filtered (map (\<lambda>r. Patients_Per_Nurse r > 4) df_filtered)) \<rparr>"

section \<open>Loading (lines 60-71)\<close>

text \<open>
  Python exceptions, as far as the script tells them apart: its only handler is
  \<^verbatim>\<open>except FileNotFoundError\<close>.  \<open>Other_Error\<close> is any exception that handler does not
  catch (PermissionError, a parser error, ...).
\<close>

datatype exn = FileNotFoundError | Other_Error

text \<open>
  What \<^verbatim>\<open>pd.read_csv('Final_Dashboard_Data_v3.csv')\<close> finds: no file, a file it cannot
  read, or the rows of the file with the date column still text.
\<close>

datatype file_state = Absent | Unreadable | Present "string row list"

definition read_csv :: "file_state \<Rightarrow> exn + string row list" where
  "read_csv fs =
     (case fs of
        Absent \<Rightarrow> Inl FileNotFoundError
      | Unreadable \<Rightarrow> Inl Other_Error
      | Present rows \<Rightarrow> Inr rows)"

text \<open>Decimal digits: the characters \<^verbatim>\<open>0\<close> to \<^verbatim>\<open>9\<close> have codes 48 to 57.\<close>

definition digit_val :: "char \<Rightarrow> nat option" where
  "digit_val c =
     (let n = (of_char c :: nat)
      in if 48 \<le> n \<and> n \<le> 57 then Some (n - 48) else None)"

fun digits_acc :: "nat \<Rightarrow> string \<Rightarrow> nat option" where
  "digits_acc acc [] = Some acc"
| "digits_acc acc (c # cs) =
     (case digit_val c of None \<Rightarrow> None | Some v \<Rightarrow> digits_acc (10 * acc + v) cs)"

definition nat_of_digits :: "string \<Rightarrow> nat option" where
  "nat_of_digits s = (if s = [] then None else digits_acc 0 s)"

text \<open>\<^verbatim>\<open>s.split(sep)\<close>\<close>

fun split_on :: "char \<Rightarrow> string \<Rightarrow> string list" where
  "split_on sep [] = [[]]"
| "split_on sep (c # cs) =
     (if c = sep then [] # split_on sep cs
      else (case split_on sep cs of
              [] \<Rightarrow> [[c]]
            | w # ws \<Rightarrow> (c # w) # ws))"

definition is_leap :: "nat \<Rightarrow> bool" where
  "is_leap y = (y mod 4 = 0 \<and> (y mod 100 \<noteq> 0 \<or> y mod 400 = 0))"

definition days_in_month :: "nat \<Rightarrow> nat \<Rightarrow> nat" where
  "days_in_month y m =
     (if m = 2 then (if is_leap y then 29 else 28)
      else if m = 4 \<or> m = 6 \<or> m = 9 \<or> m = 11 then 30
      else 31)"

definition valid_date :: "nat \<Rightarrow> nat \<Rightarrow> nat \<Rightarrow> bool" where
  "valid_date y m d =
     (1 \<le> y \<and> y \<le> 9999 \<and> 1 \<le> m \<and> m \<le> 12 \<and> 1 \<le> d \<and> d \<le> days_in_month y m)"

text \<open>
  Modelled from the spec: \<^verbatim>\<open>pd.to_datetime(text, dayfirst=...)\<close> is pandas library code,
  not under src/.  The model follows section 4.1 of the specification: the text is three
  numbers separated by \<^verbatim>\<open>/\<close>; with \<^verbatim>\<open>dayfirst=True\<close> they are day, month, year
  ("05/03/2024" is 5 March), otherwise month, day, year.  The result is the timestamp at
  midnight of that day.  A text that is not a calendar date in the requested order is
  rejected (\<open>None\<close>); other layouts pandas accepts are outside the model.
\<close>

definition to_datetime :: "bool \<Rightarrow> string \<Rightarrow> timestamp option" where
  "to_datetime dayfirst s =
     (case map nat_of_digits (split_on CHR ''/'' s) of
        [Some a, Some b, Some y] \<Rightarrow>
          (let d = (if dayfirst then a else b);
               m = (if dayfirst then b else a)
           in if valid_date y m d then Some ((y, m, d), 0) else None)
      | _ \<Rightarrow> None)"

text \<open>
  \<^verbatim>\<open>df['D.O.A'] = pd.to_datetime(df['D.O.A'], dayfirst=True)\<close>: every cell of the column
  is converted; a cell that cannot be converted raises, and nothing catches it.
\<close>

fun to_datetime_column :: "bool \<Rightarrow> string row list \<Rightarrow> exn + dataframe" where
  "to_datetime_column dayfirst [] = Inr []"
| "to_datetime_column dayfirst (r # rs) =
     (case to_datetime dayfirst (D_O_A r) of
        None \<Rightarrow> Inl Other_Error
      | Some ts \<Rightarrow>
          (case to_datetime_column dayfirst rs of
             Inl e \<Rightarrow> Inl e
           | Inr df \<Rightarrow>
               Inr (\<lparr> D_O_A = ts,
                      Patient_Count = Patient_Count r,
                      Estimated_Nurse_Count = Estimated_Nurse_Count r,
                      Patients_Per_Nurse = Patients_Per_Nurse r,
                      Occupancy_Rate = Occupancy_Rate r \<rparr> # df)))"

text \<open>
  \<^verbatim>\<open>
  def load_data():
      df = pd.read_csv('Final_Dashboard_Data_v3.csv')
      df['D.O.A'] = pd.to_datetime(df['D.O.A'], dayfirst=True)
      return df
  \<close>
\<close>

definition load_data :: "file_state \<Rightarrow> exn + dataframe" where
  "load_data fs =
     (case read_csv fs of
        Inl e \<Rightarrow> Inl e
      | Inr df \<Rightarrow> to_datetime_column True df)"

section \<open>The script\<close>

text \<open>
  The script runs top to bottom once per interaction.  What it shows is a list of
  elements, in the order of the calls that emit them.  Texts are given without their
  emoji and inner quotation marks; the notices are constructors, the source text in the comment beside each.
\<close>

datatype level = Error | Warning | Info

datatype message =
    Msg_File_Not_Found      \<comment> \<open>Error: 'Final_Dashboard_Data_v3.csv' not found.\<close>
  | Msg_Start_After_End     \<comment> \<open>Start Date cannot be after End Date.\<close>
  | Msg_Critical_Only       \<comment> \<open>Showing only CRITICAL days.\<close>
  | Msg_Hiding rat          \<comment> \<open>Hiding days with ratio < min_ratio\<close>
  | Msg_Showing_All         \<comment> \<open>Showing ALL data.\<close>
  | Msg_No_Data             \<comment> \<open>No data found for these filters! Try lowering the Risk Filter.\<close>

datatype chart = Fig_Main | Fig_Hist | Fig_Scatter

datatype card_value = Average "rat option" | One_To "rat option" | Days nat

datatype element =
    Page_Config
  | Markdown string
  | Title string
  | Divider
  | Subheader string
  | Caption string
  | Date_Input string date
  | Slider string rat
  | Notice level message
  | Card string card_value
  | Plotly_Chart chart dataframe
  | Expander string

text \<open>
  How a run ends: at the last line, at \<^verbatim>\<open>st.stop()\<close>, or with an exception nothing
  catches.
\<close>

datatype status = Completed | Stopped | Uncaught exn

text \<open>
  A run: what was shown, how it ended, and the script's variables at that point
  (\<open>None\<close>: never assigned).
\<close>

record run =
  elements :: "element list"
  status :: status
  v_start_date :: "date option"
  v_end_date :: "date option"
  v_min_ratio :: "rat option"
  v_df_filtered :: "dataframe option"
  v_aggregates :: "Aggregates option"

text \<open>
  What the user has done with the three controls: a date picked in each calendar and a
  position on the slider, counted in steps from its left end (\<open>None\<close>: untouched).
\<close>

record ui_input =
  start_pick :: "date option"
  end_pick :: "date option"
  ratio_pick :: "nat option"

text \<open>
  Modelled from the spec: \<^verbatim>\<open>st.date_input(label, value, min_value=, max_value=)\<close> is
  Streamlit library code, not under src/.  The control shows \<open>dflt\<close> until the user picks
  a date, and offers only the dates from \<open>min_value\<close> to \<open>max_value\<close>: a pick outside
  that range is not accepted and the control keeps \<open>dflt\<close>.
\<close>

definition date_input :: "date \<Rightarrow> date \<Rightarrow> date \<Rightarrow> date option \<Rightarrow> date" where
  "date_input dflt min_value max_value pick =
     (case pick of
        None \<Rightarrow> dflt
      | Some d \<Rightarrow> if min_value \<le> d \<and> d \<le> max_value then d else dflt)"

text \<open>
  Modelled from the spec: \<^verbatim>\<open>st.slider(label, min_value, max_value, value, step)\<close> is
  Streamlit library code, not under src/.  Section 6 of the specification: the
  threshold is continuous, step 0.1, range [1.0, 5.0].  The control shows \<open>dflt\<close> until
  the user moves it; position \<open>k\<close> is \<open>k\<close> steps right of \<open>min_value\<close>, and the track ends
  at \<open>max_value\<close>.
\<close>

definition slider :: "rat \<Rightarrow> rat \<Rightarrow> rat \<Rightarrow> rat \<Rightarrow> nat option \<Rightarrow> rat" where
  "slider min_value max_value dflt step pick =
     (case pick of
        None \<Rightarrow> dflt
      | Some k \<Rightarrow> min max_value (min_value + of_nat k * step))"

text \<open>
  \<^verbatim>\<open>Series.min()\<close> and \<^verbatim>\<open>Series.max()\<close> of the timestamp column.  On an empty column
  pandas returns NaT, which is no timestamp: \<open>None\<close>.
\<close>

definition series_min :: "timestamp list \<Rightarrow> timestamp option" where
  "series_min xs = (case xs of [] \<Rightarrow> None | x # ys \<Rightarrow> Some (fold min ys x))"

definition series_max :: "timestamp list \<Rightarrow> timestamp option" where
  "series_max xs = (case xs of [] \<Rightarrow> None | x # ys \<Rightarrow> Some (fold max ys x))"

text \<open>
  Lines 109-233, from the filter to the footer, with \<open>out\<close> what has been shown so far.
  \<^verbatim>\<open>
  df_filtered = ...
  st.markdown(...) (three times)
  if len(df_filtered) == 0:
      st.warning("No data found for these filters! Try lowering the Risk Filter.")
      st.stop()
  avg_patients = ...; avg_nurses = ...; avg_ratio = ...; risk_days = ...
  card(...) (four times)
  st.plotly_chart(...) (three times, each on df_filtered)
  \<close>
\<close>

definition main_area :: "dataframe \<Rightarrow> date \<Rightarrow> date \<Rightarrow> rat \<Rightarrow> element list \<Rightarrow> run" where
  "main_area df start_date end_date min_ratio out =
     (let df_filtered = filter_logic df start_date end_date min_ratio;
          out1 = out @ [Markdown ''# Nurse-to-Patient Ratio Monitor'',
                        Markdown ''### *Real-time staffing visualization against patient influx*'',
                        Markdown ''---'']
      in if length df_filtered = 0
         then \<lparr> elements = out1 @ [Notice Warning Msg_No_Data],
                status = Stopped,
                v_start_date = Some start_date, v_end_date = Some end_date,
                v_min_ratio = Some min_ratio,
                v_df_filtered = Some df_filtered, v_aggregates = None \<rparr>
         else
           (let m = metrics df_filtered
            in \<lparr> elements = out1 @
                    [Card ''Avg Daily Patients'' (Average (avg_patients m)),
                     Card ''Avg Nurse Staffing'' (Average (avg_nurses m)),
                     Card ''Nurse-to-Patient Ratio'' (One_To (avg_ratio m)),
                     Card ''High Risk Days'' (Days (risk_days m)),
                     Markdown ''##'',
                     Subheader ''Patient Influx vs. Nurse Supply'',
                     Plotly_Chart Fig_Main df_filtered,
                     Subheader ''Ratio Frequency'',
                     Plotly_Chart Fig_Hist df_filtered,
                     Subheader ''Occupancy Heatmap'',
                     Plotly_Chart Fig_Scatter df_filtered,
                     Markdown ''---'',
                     Expander ''Data Source & Methodology Note (Click to Expand)''],
                  status = Completed,
                  v_start_date = Some start_date, v_end_date = Some end_date,
                  v_min_ratio = Some min_ratio,
                  v_df_filtered = Some df_filtered, v_aggregates = Some m \<rparr>))"

text \<open>
  Lines 88-107, from the check of the two dates to the end of the sidebar, then the main
  area.
  \<^verbatim>\<open>
  if start_date > end_date:
      st.error("Start Date cannot be after End Date.")
      st.stop()
  ...
  min_ratio = st.slider("Show only days with Ratio > X", 1.0, 5.0, 1.0, 0.1)
  if min_ratio >= 4.0:   st.error("Showing only CRITICAL days.")
  elif min_ratio > 1.0:  st.warning(f"Hiding days with ratio < {min_ratio}")
  else:                  st.info("Showing ALL data.")
  \<close>
\<close>

definition after_dates :: "dataframe \<Rightarrow> date \<Rightarrow> date \<Rightarrow> ui_input \<Rightarrow> element list \<Rightarrow> run" where
  "after_dates df start_date end_date ui out =
     (if start_date > end_date
      then \<lparr> elements = out @ [Notice Error Msg_Start_After_End],
             status = Stopped,
             v_start_date = Some start_date, v_end_date = Some end_date,
             v_min_ratio = None, v_df_filtered = None, v_aggregates = None \<rparr>
      else
        (let min_ratio = slider 1 5 1 (1 / 10) (ratio_pick ui);
             out1 = out @ [Divider, Subheader ''Risk Filter'',
                           Caption ''Filter out safe days to focus on overcrowding.'',
                           Slider ''Show only days with Ratio > X'' min_ratio];
             out2 = out1 @
               [if min_ratio \<ge> 4 then Notice Error Msg_Critical_Only
                else if min_ratio > 1 then Notice Warning (Msg_Hiding min_ratio)
                else Notice Info Msg_Showing_All]
         in main_area df start_date end_date min_ratio out2))"

text \<open>
  Lines 74-86, the head of the sidebar and the two date controls.
  \<^verbatim>\<open>
  min_dt = df['D.O.A'].min().date()
  max_dt = df['D.O.A'].max().date()
  start_date = c1.date_input("Start", min_dt, min_value=min_dt, max_value=max_dt)
  end_date = c2.date_input("End", max_dt, min_value=min_dt, max_value=max_dt)
  \<close>
  On a frame without rows the minimum is NaT and the date controls cannot be built from
  it: the run ends there with an exception nothing catches.
\<close>

definition sidebar :: "dataframe \<Rightarrow> ui_input \<Rightarrow> element list \<Rightarrow> run" where
  "sidebar df ui out =
     (let out1 = out @ [Title ''Control Panel'',
                        Markdown ''Use these tools to filter the dashboard views.'',
                        Divider, Subheader ''Date Range'']
      in case (series_min (map D_O_A df), series_max (map D_O_A df)) of
           (Some lo, Some hi) \<Rightarrow>
             (let min_dt = dt_date lo;
                  max_dt = dt_date hi;
                  start_date = date_input min_dt min_dt max_dt (start_pick ui);
                  end_date = date_input max_dt min_dt max_dt (end_pick ui)
              in after_dates df start_date end_date ui
                   (out1 @ [Date_Input ''Start'' start_date, Date_Input ''End'' end_date]))
         | _ \<Rightarrow> \<lparr> elements = out1, status = Uncaught Other_Error,
                   v_start_date = None, v_end_date = None, v_min_ratio = None,
                   v_df_filtered = None, v_aggregates = None \<rparr>)"

text \<open>
  The whole script.
  \<^verbatim>\<open>
  st.set_page_config(...)
  st.markdown("<style>...</style>", unsafe_allow_html=True)
  try:
      df = load_data()
  except FileNotFoundError:
      st.error("Error: 'Final_Dashboard_Data_v3.csv' not found.")
      st.stop()
  \<close>
\<close>

definition script :: "file_state \<Rightarrow> ui_input \<Rightarrow> run" where
  "script fs ui =
     (let out = [Page_Config, Markdown ''<style>...</style>'']
      in case load_data fs of
           Inl FileNotFoundError \<Rightarrow>
             \<lparr> elements = out @ [Notice Error Msg_File_Not_Found],
               status = Stopped,
               v_start_date = None, v_end_date = None, v_min_ratio = None,
               v_df_filtered = None, v_aggregates = None \<rparr>
         | Inl Other_Error \<Rightarrow>
             \<lparr> elements = out, status = Uncaught Other_Error,
               v_start_date = None, v_end_date = None, v_min_ratio = None,
               v_df_filtered = None, v_aggregates = None \<rparr>
         | Inr df \<Rightarrow> sidebar df ui out)"

section \<open>Notions of the specification\<close>

text \<open>
  The definitions of this section are not code of the script: they say in HOL what the
  specification's words mean, for the theorems to compare the script with.
\<close>



text \<open>A value that may be NaN is a number with the property \<open>P\<close>.\<close>

definition is_number :: "('a \<Rightarrow> bool) \<Rightarrow> 'a option \<Rightarrow> bool" where
  "is_number P x = (case x of None \<Rightarrow> False | Some v \<Rightarrow> P v)"

text \<open>The date span of a dataset: its earliest and its latest day.\<close>

definition first_day :: "dataframe \<Rightarrow> date" where
  "first_day df = Min (set (map (\<lambda>r. fst (D_O_A r)) df))"

definition last_day :: "dataframe \<Rightarrow> date" where
  "last_day df = Max (set (map (\<lambda>r. fst (D_O_A r)) df))"





section \<open>Properties of the filter\<close>

lemma loc_map_mask: "loc df (map P df) = filter P df"
  by (induction df) (simp_all add: loc_def)

lemma date_step_filter:
  "date_step df s e = filter (\<lambda>r. s \<le> dt_date (D_O_A r) \<and> dt_date (D_O_A r) \<le> e) df"
  by (simp add: date_step_def date_mask_def loc_map_mask)

lemma ratio_step_filter:
  "ratio_step df m = filter (\<lambda>r. m \<le> Patients_Per_Nurse r) df"
  by (simp add: ratio_step_def ratio_mask_def loc_map_mask)

lemma filter_logic_steps:
  "filter_logic df s e m = ratio_step (date_step df s e) m"
  by (simp add: filter_logic_def date_step_def ratio_step_def Let_def)

lemma filter_logic_filter:
  "filter_logic df s e m =
     filter (\<lambda>r. s \<le> dt_date (D_O_A r) \<and> dt_date (D_O_A r) \<le> e \<and> m \<le> Patients_Per_Nurse r) df"
  by (simp add: filter_logic_steps date_step_filter ratio_step_filter conj_commute conj_left_commute)

lemma length_filter_mono:
  "(\<And>x. x \<in> set xs \<Longrightarrow> P x \<Longrightarrow> Q x) \<Longrightarrow> length (filter P xs) \<le> length (filter Q xs)"
  by (induction xs) auto

section \<open>Properties of rounding\<close>



section \<open>Properties of the date text\<close>










section \<open>Properties of the aggregates\<close>





section \<open>Properties of the controls and of the script\<close>

lemma series_min_Min: "xs \<noteq> [] \<Longrightarrow> series_min xs = Some (Min (set xs))"
  by (cases xs) (simp_all add: series_min_def Min.set_eq_fold [symmetric])

lemma series_max_Max: "xs \<noteq> [] \<Longrightarrow> series_max xs = Some (Max (set xs))"
  by (cases xs) (simp_all add: series_max_def Max.set_eq_fold [symmetric])

lemma mono_fst_timestamp: "mono (fst :: timestamp \<Rightarrow> date)"
  by (rule monoI) (auto simp: less_eq_prod_def)

lemma dt_date_Min:
  assumes "df \<noteq> []"
  shows "dt_date (Min (D_O_A ` set df)) = first_day df"
proof -
  have "fst (Min (D_O_A ` set df)) = Min (fst ` D_O_A ` set df)"
    using assms by (intro mono_Min_commute mono_fst_timestamp) simp_all
  then show ?thesis by (simp add: dt_date_def first_day_def image_image)
qed

lemma dt_date_Max:
  assumes "df \<noteq> []"
  shows "dt_date (Max (D_O_A ` set df)) = last_day df"
proof -
  have "fst (Max (D_O_A ` set df)) = Max (fst ` D_O_A ` set df)"
    using assms by (intro mono_Max_commute mono_fst_timestamp) simp_all
  then show ?thesis by (simp add: dt_date_def last_day_def image_image)
qed

lemma first_day_le_last_day: "df \<noteq> [] \<Longrightarrow> first_day df \<le> last_day df"
  by (simp add: first_day_def last_day_def)

lemma date_input_range:
  "min_value \<le> dflt \<Longrightarrow> dflt \<le> max_value \<Longrightarrow>
     min_value \<le> date_input dflt min_value max_value pick
     \<and> date_input dflt min_value max_value pick \<le> max_value"
  by (simp add: date_input_def split: option.split)

lemma slider_range: "1 \<le> slider 1 5 1 (1 / 10) pick \<and> slider 1 5 1 (1 / 10) pick \<le> 5"
  by (simp add: slider_def split: option.split)

lemma main_area_vars:
  "v_start_date (main_area df s e m out) = Some s
   \<and> v_end_date (main_area df s e m out) = Some e
   \<and> v_min_ratio (main_area df s e m out) = Some m"
  by (simp add: main_area_def Let_def)

lemma sidebar_nonempty:
  assumes "df \<noteq> []"
  shows "sidebar df ui out =
           after_dates df
             (date_input (first_day df) (first_day df) (last_day df) (start_pick ui))
             (date_input (last_day df) (first_day df) (last_day df) (end_pick ui))
             ui
             (out @ [Title ''Control Panel'',
                     Markdown ''Use these tools to filter the dashboard views.'',
                     Divider, Subheader ''Date Range'',
                     Date_Input ''Start''
                       (date_input (first_day df) (first_day df) (last_day df) (start_pick ui)),
                     Date_Input ''End''
                       (date_input (last_day df) (first_day df) (last_day df) (end_pick ui))])"
proof -
  from assms have ne: "map D_O_A df \<noteq> []" by simp
  show ?thesis
    by (simp add: sidebar_def Let_def series_min_Min [OF ne] series_max_Max [OF ne]
        dt_date_Min [OF assms] dt_date_Max [OF assms])
qed

lemma sidebar_empty: "v_df_filtered (sidebar [] ui out) = None"
  by (simp add: sidebar_def series_min_def)

lemma after_dates_params:
  assumes "v_df_filtered (after_dates df s e ui out) \<noteq> None"
  shows "s \<le> e
       \<and> v_start_date (after_dates df s e ui out) = Some s
       \<and> v_end_date (after_dates df s e ui out) = Some e
       \<and> v_min_ratio (after_dates df s e ui out) = Some (slider 1 5 1 (1 / 10) (ratio_pick ui))"
proof (cases "s > e")
  case True
  with assms show ?thesis by (simp add: after_dates_def)
next
  case False
  then show ?thesis by (simp add: after_dates_def Let_def main_area_vars)
qed

section \<open>The claims\<close>

text \<open>
  C1.  For every dataset and every start date, end date and minimum ratio with the start
  date not after the end date, the filtered view is exactly the subsequence of the
  dataset, in the original order, of the records whose day (the first component of the
  timestamp; the time of day plays no part) lies between the start date and the end date,
  both included, and whose patients-per-nurse ratio is at least the minimum ratio.
\<close>

theorem filtered_view_is_subsequence:
  assumes "start_date \<le> end_date"
  shows "filter_logic df start_date end_date min_ratio =
           filter (\<lambda>r. start_date \<le> fst (D_O_A r) \<and> fst (D_O_A r) \<le> end_date
                        \<and> min_ratio \<le> Patients_Per_Nurse r) df
       \<and> subseq (filter_logic df start_date end_date min_ratio) df"
  by (simp add: filter_logic_filter dt_date_def)

text \<open>
  An instance: of five records, one lies before the range, one after it, one is below the
  ratio; the record on the end date is kept although its timestamp is late in that day.
\<close>

theorem filtered_view_is_subsequence_witness:
  "((2024, 1, 1) :: date) \<le> (2024, 1, 2)
   \<and> filter_logic
         [\<lparr> D_O_A = ((2023, 12, 31), 0), Patient_Count = 60, Estimated_Nurse_Count = 12,
             Patients_Per_Nurse = 5, Occupancy_Rate = 90 \<rparr>,
          \<lparr> D_O_A = ((2024, 1, 2), 86399), Patient_Count = 45, Estimated_Nurse_Count = 10,
             Patients_Per_Nurse = 9 / 2, Occupancy_Rate = 85 \<rparr>,
          \<lparr> D_O_A = ((2024, 1, 1), 0), Patient_Count = 20, Estimated_Nurse_Count = 10,
             Patients_Per_Nurse = 2, Occupancy_Rate = 40 \<rparr>,
          \<lparr> D_O_A = ((2024, 1, 1), 0), Patient_Count = 30, Estimated_Nurse_Count = 10,
             Patients_Per_Nurse = 3, Occupancy_Rate = 50 \<rparr>,
          \<lparr> D_O_A = ((2024, 1, 3), 0), Patient_Count = 50, Estimated_Nurse_Count = 10,
             Patients_Per_Nurse = 5, Occupancy_Rate = 95 \<rparr>]
         (2024, 1, 1) (2024, 1, 2) 3
       = [\<lparr> D_O_A = ((2024, 1, 2), 86399), Patient_Count = 45, Estimated_Nurse_Count = 10,
             Patients_Per_Nurse = 9 / 2, Occupancy_Rate = 85 \<rparr>,
          \<lparr> D_O_A = ((2024, 1, 1), 0), Patient_Count = 30, Estimated_Nurse_Count = 10,
             Patients_Per_Nurse = 3, Occupancy_Rate = 50 \<rparr>]"
proof -
  have h: "((2024, 1, 1) :: date) \<le> (2024, 1, 2)" by simp
  from filtered_view_is_subsequence [OF h] show ?thesis by simp
qed




text \<open>
  C3.  For every dataset and all parameters, if the filtered view has no records, the
  script shows the three header lines and the notice that no data was found, and stops:
  the run ends at \<^verbatim>\<open>st.stop()\<close>, not with an exception; no aggregate is computed; no card
  and no chart is shown.
\<close>

theorem empty_view_halts:
  assumes "filter_logic df start_date end_date min_ratio = []"
  shows "main_area df start_date end_date min_ratio out =
           \<lparr> elements = out @
               [Markdown ''# Nurse-to-Patient Ratio Monitor'',
                Markdown ''### *Real-time staffing visualization against patient influx*'',
                Markdown ''---'',
                Notice Warning Msg_No_Data],
             status = Stopped,
             v_start_date = Some start_date, v_end_date = Some end_date,
             v_min_ratio = Some min_ratio,
             v_df_filtered = Some [], v_aggregates = None \<rparr>"
  using assms by (simp add: main_area_def)

text \<open>
  An instance, the scenario of the specification: the minimum ratio 5.0 on a dataset
  whose largest ratio is 4.2.
\<close>

theorem empty_view_halts_witness:
  "filter_logic
     [\<lparr> D_O_A = ((2024, 1, 1), 0), Patient_Count = 42, Estimated_Nurse_Count = 10,
         Patients_Per_Nurse = 42 / 10, Occupancy_Rate = 80 \<rparr>,
      \<lparr> D_O_A = ((2024, 1, 2), 0), Patient_Count = 30, Estimated_Nurse_Count = 10,
         Patients_Per_Nurse = 3, Occupancy_Rate = 60 \<rparr>]
     (2024, 1, 1) (2024, 1, 2) 5 = []
   \<and> main_area
     [\<lparr> D_O_A = ((2024, 1, 1), 0), Patient_Count = 42, Estimated_Nurse_Count = 10,
         Patients_Per_Nurse = 42 / 10, Occupancy_Rate = 80 \<rparr>,
      \<lparr> D_O_A = ((2024, 1, 2), 0), Patient_Count = 30, Estimated_Nurse_Count = 10,
         Patients_Per_Nurse = 3, Occupancy_Rate = 60 \<rparr>]
     (2024, 1, 1) (2024, 1, 2) 5 [] =
       \<lparr> elements =
           [Markdown ''# Nurse-to-Patient Ratio Monitor'',
            Markdown ''### *Real-time staffing visualization against patient influx*'',
            Markdown ''---'',
            Notice Warning Msg_No_Data],
         status = Stopped,
         v_start_date = Some (2024, 1, 1), v_end_date = Some (2024, 1, 2),
         v_min_ratio = Some 5,
         v_df_filtered = Some [], v_aggregates = None \<rparr>"
proof -
  have h: "filter_logic
     [\<lparr> D_O_A = ((2024, 1, 1), 0), Patient_Count = 42, Estimated_Nurse_Count = 10,
         Patients_Per_Nurse = 42 / 10, Occupancy_Rate = 80 \<rparr>,
      \<lparr> D_O_A = ((2024, 1, 2), 0), Patient_Count = 30, Estimated_Nurse_Count = 10,
         Patients_Per_Nurse = 3, Occupancy_Rate = 60 \<rparr>]
     (2024, 1, 1) (2024, 1, 2) 5 = []"
    by (simp add: filter_logic_filter)
  from empty_view_halts [OF h, of "[]"] h show ?thesis by simp
qed

text \<open>
  C4.  For every pair of dates from the two controls with the start date after the end
  date, the script shows the validation message and stops there: the slider is not read,
  the filter is not run (\<open>df_filtered\<close> is never assigned), nothing is aggregated.
\<close>

theorem invalid_date_range_halts:
  assumes "start_date > end_date"
  shows "after_dates df start_date end_date ui out =
           \<lparr> elements = out @ [Notice Error Msg_Start_After_End],
             status = Stopped,
             v_start_date = Some start_date, v_end_date = Some end_date,
             v_min_ratio = None, v_df_filtered = None, v_aggregates = None \<rparr>"
  using assms by (simp add: after_dates_def)

text \<open>An instance, the scenario of the specification: 2024-02-01 to 2024-01-01.\<close>

theorem invalid_date_range_halts_witness:
  "((2024, 2, 1) :: date) > (2024, 1, 1)
   \<and> after_dates
        [\<lparr> D_O_A = ((2024, 1, 1), 0), Patient_Count = 50, Estimated_Nurse_Count = 10,
            Patients_Per_Nurse = 5, Occupancy_Rate = 80 \<rparr>,
         \<lparr> D_O_A = ((2024, 2, 1), 0), Patient_Count = 40, Estimated_Nurse_Count = 20,
            Patients_Per_Nurse = 2, Occupancy_Rate = 70 \<rparr>]
        (2024, 2, 1) (2024, 1, 1)
        \<lparr> start_pick = Some (2024, 2, 1), end_pick = Some (2024, 1, 1), ratio_pick = None \<rparr>
        []
      = \<lparr> elements = [Notice Error Msg_Start_After_End],
          status = Stopped,
          v_start_date = Some (2024, 2, 1), v_end_date = Some (2024, 1, 1),
          v_min_ratio = None, v_df_filtered = None, v_aggregates = None \<rparr>"
proof -
  have h: "((2024, 2, 1) :: date) > (2024, 1, 1)" by simp
  from invalid_date_range_halts [OF h, of _ _ "[]"] h show ?thesis by simp
qed

text \<open>
  C5, as amended.  If the source file does not exist, loading fails with
  \<^verbatim>\<open>FileNotFoundError\<close>, the script shows the one error message that the file was not
  found and stops: no control, no filter, no aggregate, no chart.  A source that exists
  but cannot be read raises an exception the handler does not catch: the run ends with
  that exception and the not-found message is not shown.
\<close>

theorem missing_file_halts:
  "load_data Absent = Inl FileNotFoundError
   \<and> script Absent ui =
       \<lparr> elements = [Page_Config, Markdown ''<style>...</style>'',
                     Notice Error Msg_File_Not_Found],
         status = Stopped,
         v_start_date = None, v_end_date = None, v_min_ratio = None,
         v_df_filtered = None, v_aggregates = None \<rparr>
   \<and> load_data Unreadable = Inl Other_Error
   \<and> status (script Unreadable ui) = Uncaught Other_Error
   \<and> Notice Error Msg_File_Not_Found \<notin> set (elements (script Unreadable ui))"
  by (simp add: script_def load_data_def read_csv_def)

text \<open>
  The claim C5 as written promises the same explicit message for an unreadable file.  On
  an unreadable file the run ends with an uncaught exception, having shown the page
  configuration and the style sheet only.
\<close>

theorem unreadable_file_counterexample:
  "status (script Unreadable \<lparr> start_pick = None, end_pick = None, ratio_pick = None \<rparr>)
     = Uncaught Other_Error
   \<and> elements (script Unreadable \<lparr> start_pick = None, end_pick = None, ratio_pick = None \<rparr>)
     = [Page_Config, Markdown ''<style>...</style>'']"
  by (simp add: script_def load_data_def read_csv_def)

text \<open>
  C6.  Applying the ratio predicate before the date predicate yields the same set of
  records as applying the date predicate before the ratio predicate, which is the order
  the script uses.
\<close>

theorem filter_order_independent:
  "set (ratio_step (date_step df start_date end_date) min_ratio)
     = set (date_step (ratio_step df min_ratio) start_date end_date)
   \<and> filter_logic df start_date end_date min_ratio
     = ratio_step (date_step df start_date end_date) min_ratio"
  by (auto simp: filter_logic_steps date_step_filter ratio_step_filter)

text \<open>
  C7.  For every dataset, every date range and thresholds \<open>r1 \<le> r2\<close> in [1.0, 5.0], the
  view for \<open>r2\<close> has at most as many records as the view for \<open>r1\<close>.
\<close>

theorem filter_monotone_in_min_ratio:
  assumes "1 \<le> r1" and "r1 \<le> r2" and "r2 \<le> 5"
  shows "length (filter_logic df start_date end_date r2)
           \<le> length (filter_logic df start_date end_date r1)"
  unfolding filter_logic_filter using assms(2) by (intro length_filter_mono) auto

text \<open>An instance: thresholds 2 and 4 on two records with ratios 3 and 5.\<close>

theorem filter_monotone_in_min_ratio_witness:
  "(1 :: rat) \<le> 2 \<and> (2 :: rat) \<le> 4 \<and> (4 :: rat) \<le> 5
   \<and> length (filter_logic
         [\<lparr> D_O_A = ((2024, 1, 1), 0), Patient_Count = 30, Estimated_Nurse_Count = 10,
             Patients_Per_Nurse = 3, Occupancy_Rate = 50 \<rparr>,
          \<lparr> D_O_A = ((2024, 1, 2), 0), Patient_Count = 50, Estimated_Nurse_Count = 10,
             Patients_Per_Nurse = 5, Occupancy_Rate = 95 \<rparr>]
         (2024, 1, 1) (2024, 1, 2) 4) = 1
   \<and> length (filter_logic
         [\<lparr> D_O_A = ((2024, 1, 1), 0), Patient_Count = 30, Estimated_Nurse_Count = 10,
             Patients_Per_Nurse = 3, Occupancy_Rate = 50 \<rparr>,
          \<lparr> D_O_A = ((2024, 1, 2), 0), Patient_Count = 50, Estimated_Nurse_Count = 10,
             Patients_Per_Nurse = 5, Occupancy_Rate = 95 \<rparr>]
         (2024, 1, 1) (2024, 1, 2) 2) = 2"
proof -
  have h: "(1 :: rat) \<le> 2" "(2 :: rat) \<le> 4" "(4 :: rat) \<le> 5" by simp_all
  from filter_monotone_in_min_ratio [OF h] show ?thesis
    by (simp add: filter_logic_filter dt_date_def)
qed



text \<open>
  C9.  The two-record scenario of the specification: both records pass the filter, and the
  aggregates are 45.0, 15.0, 3.5 and one risk day.  The times of day and the occupancy
  rates, which the scenario leaves open, are arbitrary.
\<close>

theorem round_trip_scenario:
  "filter_logic
     [\<lparr> D_O_A = ((2024, 1, 1), t1), Patient_Count = 50, Estimated_Nurse_Count = 10,
         Patients_Per_Nurse = 5, Occupancy_Rate = o1 \<rparr>,
      \<lparr> D_O_A = ((2024, 1, 2), t2), Patient_Count = 40, Estimated_Nurse_Count = 20,
         Patients_Per_Nurse = 2, Occupancy_Rate = o2 \<rparr>]
     (2024, 1, 1) (2024, 1, 2) 1
   = [\<lparr> D_O_A = ((2024, 1, 1), t1), Patient_Count = 50, Estimated_Nurse_Count = 10,
         Patients_Per_Nurse = 5, Occupancy_Rate = o1 \<rparr>,
      \<lparr> D_O_A = ((2024, 1, 2), t2), Patient_Count = 40, Estimated_Nurse_Count = 20,
         Patients_Per_Nurse = 2, Occupancy_Rate = o2 \<rparr>]
   \<and> metrics
     [\<lparr> D_O_A = ((2024, 1, 1), t1), Patient_Count = 50, Estimated_Nurse_Count = 10,
         Patients_Per_Nurse = 5, Occupancy_Rate = o1 \<rparr>,
      \<lparr> D_O_A = ((2024, 1, 2), t2), Patient_Count = 40, Estimated_Nurse_Count = 20,
         Patients_Per_Nurse = 2, Occupancy_Rate = o2 \<rparr>]
   = \<lparr> avg_patients = Some 45, avg_nurses = Some 15, avg_ratio = Some (35 / 10), risk_days = 1 \<rparr>"
  by (simp add: filter_logic_filter dt_date_def metrics_def mean_def py_round_def rint_def loc_def)

text \<open>
  C10.  In every run in which the filter is invoked, the start date and the end date lie
  within the date span of the loaded dataset, from its earliest to its latest day, and
  the minimum ratio lies in [1.0, 5.0].
\<close>

theorem filter_parameters_in_range:
  assumes "load_data fs = Inr df"
    and "v_df_filtered (script fs ui) \<noteq> None"
  shows "is_number (\<lambda>d. first_day df \<le> d \<and> d \<le> last_day df) (v_start_date (script fs ui))
       \<and> is_number (\<lambda>d. first_day df \<le> d \<and> d \<le> last_day df) (v_end_date (script fs ui))
       \<and> is_number (\<lambda>m. 1 \<le> m \<and> m \<le> 5) (v_min_ratio (script fs ui))"
proof -
  let ?out = "[Page_Config, Markdown ''<style>...</style>'']"
  from assms(1) have s: "script fs ui = sidebar df ui ?out"
    by (simp add: script_def)
  with assms(2) sidebar_empty have ne: "df \<noteq> []" by auto
  let ?s = "date_input (first_day df) (first_day df) (last_day df) (start_pick ui)"
  let ?e = "date_input (last_day df) (first_day df) (last_day df) (end_pick ui)"
  note span = first_day_le_last_day [OF ne]
  from assms(2) have "v_df_filtered (sidebar df ui ?out) \<noteq> None" by (simp add: s)
  then have p: "v_start_date (script fs ui) = Some ?s"
      "v_end_date (script fs ui) = Some ?e"
      "v_min_ratio (script fs ui) = Some (slider 1 5 1 (1 / 10) (ratio_pick ui))"
    using after_dates_params [of df ?s ?e ui] by (simp_all add: s sidebar_nonempty [OF ne])
  have "first_day df \<le> ?s \<and> ?s \<le> last_day df" "first_day df \<le> ?e \<and> ?e \<le> last_day df"
    using span by (simp_all add: date_input_range)
  then show ?thesis using p slider_range [of "ratio_pick ui"] by (simp add: is_number_def)
qed

text \<open>
  An instance: a start pick before the span is not taken (the control keeps the earliest
  day), an end pick inside the span is, and a slider position beyond the track gives 5.0.
\<close>

theorem filter_parameters_in_range_witness:
  "load_data (Present
        [\<lparr> D_O_A = ''01/01/2024'', Patient_Count = 50, Estimated_Nurse_Count = 10,
            Patients_Per_Nurse = 5, Occupancy_Rate = 80 \<rparr>,
         \<lparr> D_O_A = ''01/02/2024'', Patient_Count = 40, Estimated_Nurse_Count = 20,
            Patients_Per_Nurse = 2, Occupancy_Rate = 70 \<rparr>])
     = Inr
        [\<lparr> D_O_A = ((2024, 1, 1), 0), Patient_Count = 50, Estimated_Nurse_Count = 10,
            Patients_Per_Nurse = 5, Occupancy_Rate = 80 \<rparr>,
         \<lparr> D_O_A = ((2024, 2, 1), 0), Patient_Count = 40, Estimated_Nurse_Count = 20,
            Patients_Per_Nurse = 2, Occupancy_Rate = 70 \<rparr>]
   \<and> v_df_filtered (script (Present
        [\<lparr> D_O_A = ''01/01/2024'', Patient_Count = 50, Estimated_Nurse_Count = 10,
            Patients_Per_Nurse = 5, Occupancy_Rate = 80 \<rparr>,
         \<lparr> D_O_A = ''01/02/2024'', Patient_Count = 40, Estimated_Nurse_Count = 20,
            Patients_Per_Nurse = 2, Occupancy_Rate = 70 \<rparr>])
        \<lparr> start_pick = Some (2023, 6, 1), end_pick = Some (2024, 1, 15), ratio_pick = Some 60 \<rparr>)
     \<noteq> None
   \<and> is_number (\<lambda>d. (2024, 1, 1) \<le> d \<and> d \<le> (2024, 2, 1))
        (v_start_date (script (Present
        [\<lparr> D_O_A = ''01/01/2024'', Patient_Count = 50, Estimated_Nurse_Count = 10,
            Patients_Per_Nurse = 5, Occupancy_Rate = 80 \<rparr>,
         \<lparr> D_O_A = ''01/02/2024'', Patient_Count = 40, Estimated_Nurse_Count = 20,
            Patients_Per_Nurse = 2, Occupancy_Rate = 70 \<rparr>])
        \<lparr> start_pick = Some (2023, 6, 1), end_pick = Some (2024, 1, 15), ratio_pick = Some 60 \<rparr>))
   \<and> is_number (\<lambda>d. (2024, 1, 1) \<le> d \<and> d \<le> (2024, 2, 1))
        (v_end_date (script (Present
        [\<lparr> D_O_A = ''01/01/2024'', Patient_Count = 50, Estimated_Nurse_Count = 10,
            Patients_Per_Nurse = 5, Occupancy_Rate = 80 \<rparr>,
         \<lparr> D_O_A = ''01/02/2024'', Patient_Count = 40, Estimated_Nurse_Count = 20,
            Patients_Per_Nurse = 2, Occupancy_Rate = 70 \<rparr>])
        \<lparr> start_pick = Some (2023, 6, 1), end_pick = Some (2024, 1, 15), ratio_pick = Some 60 \<rparr>))
   \<and> is_number (\<lambda>m. 1 \<le> m \<and> m \<le> 5)
        (v_min_ratio (script (Present
        [\<lparr> D_O_A = ''01/01/2024'', Patient_Count = 50, Estimated_Nurse_Count = 10,
            Patients_Per_Nurse = 5, Occupancy_Rate = 80 \<rparr>,
         \<lparr> D_O_A = ''01/02/2024'', Patient_Count = 40, Estimated_Nurse_Count = 20,
            Patients_Per_Nurse = 2, Occupancy_Rate = 70 \<rparr>])
        \<lparr> start_pick = Some (2023, 6, 1), end_pick = Some (2024, 1, 15), ratio_pick = Some 60 \<rparr>))"
proof -
  let ?fs = "Present
        [\<lparr> D_O_A = ''01/01/2024'', Patient_Count = 50, Estimated_Nurse_Count = 10,
            Patients_Per_Nurse = 5, Occupancy_Rate = 80 \<rparr>,
         \<lparr> D_O_A = ''01/02/2024'', Patient_Count = 40, Estimated_Nurse_Count = 20,
            Patients_Per_Nurse = 2, Occupancy_Rate = 70 \<rparr>]"
  let ?df = "[\<lparr> D_O_A = ((2024, 1, 1) :: date, 0 :: nat), Patient_Count = 50,
                Estimated_Nurse_Count = 10, Patients_Per_Nurse = 5, Occupancy_Rate = 80 \<rparr>,
              \<lparr> D_O_A = ((2024, 2, 1), 0), Patient_Count = 40, Estimated_Nurse_Count = 20,
                Patients_Per_Nurse = 2, Occupancy_Rate = 70 \<rparr>]"
  let ?ui = "\<lparr> start_pick = Some (2023, 6, 1), end_pick = Some (2024, 1, 15),
               ratio_pick = Some 60 \<rparr>"
  have h1: "load_data ?fs = Inr ?df" by code_simp
  have h2: "v_df_filtered (script ?fs ?ui) \<noteq> None" by code_simp
  have d: "first_day ?df = (2024, 1, 1)" "last_day ?df = (2024, 2, 1)" by code_simp+
  from filter_parameters_in_range [OF h1 h2] h1 h2 show ?thesis by (simp only: d simp_thms)
qed

section \<open>A run of the whole script\<close>

text \<open>Reversed dates, picked within the span of the data, stop the run at the check.\<close>

lemma reversed_dates_reach_the_check:
  "script
     (Present
        [\<lparr> D_O_A = ''01/01/2024'', Patient_Count = 50, Estimated_Nurse_Count = 10,
            Patients_Per_Nurse = 5, Occupancy_Rate = 80 \<rparr>,
         \<lparr> D_O_A = ''01/02/2024'', Patient_Count = 40, Estimated_Nurse_Count = 20,
            Patients_Per_Nurse = 2, Occupancy_Rate = 70 \<rparr>])
     \<lparr> start_pick = Some (2024, 2, 1), end_pick = Some (2024, 1, 1), ratio_pick = None \<rparr>
   = \<lparr> elements =
         [Page_Config, Markdown ''<style>...</style>'', Title ''Control Panel'',
          Markdown ''Use these tools to filter the dashboard views.'', Divider,
          Subheader ''Date Range'', Date_Input ''Start'' (2024, 2, 1),
          Date_Input ''End'' (2024, 1, 1), Notice Error Msg_Start_After_End],
       status = Stopped,
       v_start_date = Some (2024, 2, 1), v_end_date = Some (2024, 1, 1),
       v_min_ratio = None, v_df_filtered = None, v_aggregates = None \<rparr>"
  by code_simp

end
